theory Spec2Isabelle
  imports Main
begin

section \<open>Data model\<close>

text \<open>
  The controller in \<^verbatim>\<open>controllers/aggregated_clusteroperator_controller.go\<close> aggregates
  the status of all PlatformOperator resources (the members) into the status of one
  ClusterOperator (the composite target). Only what the controller reads is kept of the
  API types.
\<close>

text \<open>A member's condition (metav1.Condition): the controller reads the reason only.\<close>

record Condition =
  Type :: string
  Reason :: string
  Message :: string

text \<open>A PlatformOperator: its name and the conditions of its status, in order.\<close>

record PlatformOperator =
  Name :: string
  Conditions :: "Condition list"

text \<open>
  Go errors. \<open>StatusNotFound\<close> is the API server's not-found error, the one that
  \<^verbatim>\<open>client.IgnoreNotFound\<close> recognises; \<open>ErrorString\<close> is any other error, among them
  the values built by \<^verbatim>\<open>errors.New\<close>.
\<close>

datatype error = StatusNotFound string | ErrorString string

fun Error :: "error \<Rightarrow> string" where
  "Error (StatusNotFound msg) = msg"
| "Error (ErrorString msg) = msg"

definition errors_New :: "string \<Rightarrow> error" where
  "errors_New msg = ErrorString msg"

definition IgnoreNotFound :: "error \<Rightarrow> error option" where
  "IgnoreNotFound err = (case err of StatusNotFound _ \<Rightarrow> None | ErrorString _ \<Rightarrow> Some err)"

text \<open>
  Modelled from the spec: the two failure reasons \<^verbatim>\<open>platformtypes.ReasonSourceFailed\<close> and
  \<^verbatim>\<open>platformtypes.ReasonApplyFailed\<close> are declared in the package \<^verbatim>\<open>api/v1alpha1\<close>,
  which is not among the sources; the spec gives their values as \<^verbatim>\<open>SourceFailed\<close> and
  \<^verbatim>\<open>ApplyFailed\<close>.
\<close>

definition ReasonSourceFailed :: string where
  "ReasonSourceFailed = ''SourceFailed''"

definition ReasonApplyFailed :: string where
  "ReasonApplyFailed = ''ApplyFailed''"

section \<open>Formatting with \<^verbatim>\<open>%q\<close>\<close>

text \<open>
  \<^verbatim>\<open>fmt.Sprintf("%s is failing: %q", name, reason)\<close> writes the name as it is and the
  reason as a double-quoted Go string literal (\<^verbatim>\<open>strconv.Quote\<close>). The quoting is
  written out for ASCII: the quote and the backslash are escaped, control characters get
  their named or hexadecimal escapes, every other character is copied. (Bytes from 0x80
  on are copied as well, which is what Go does for printable runes; the controller only
  ever quotes one of the two failure reasons.)
\<close>

definition lowerhex :: "nat \<Rightarrow> char" where
  "lowerhex n = ''0123456789abcdef'' ! (n mod 16)"

definition quote_char :: "char \<Rightarrow> string" where
  "quote_char c =
     (if c = CHR 0x22 then [CHR 0x5C, CHR 0x22]
      else if c = CHR 0x5C then [CHR 0x5C, CHR 0x5C]
      else if c = CHR 0x07 then [CHR 0x5C, CHR ''a'']
      else if c = CHR 0x08 then [CHR 0x5C, CHR ''b'']
      else if c = CHR 0x0C then [CHR 0x5C, CHR ''f'']
      else if c = CHR 0x0A then [CHR 0x5C, CHR ''n'']
      else if c = CHR 0x0D then [CHR 0x5C, CHR ''r'']
      else if c = CHR 0x09 then [CHR 0x5C, CHR ''t'']
      else if c = CHR 0x0B then [CHR 0x5C, CHR ''v'']
      else if (of_char c :: nat) < 32 \<or> (of_char c :: nat) = 127
        then [CHR 0x5C, CHR ''x'', lowerhex (of_char c div 16), lowerhex (of_char c mod 16)]
      else [c])"

definition strconv_Quote :: "string \<Rightarrow> string" where
  "strconv_Quote s = [CHR 0x22] @ concat (map quote_char s) @ [CHR 0x22]"

definition failing_message :: "string \<Rightarrow> string \<Rightarrow> string" where
  "failing_message name rsn = name @ '' is failing: '' @ strconv_Quote rsn"

section \<open>Inspecting the members\<close>

record POStatusErrors =
  FailingPOs :: "PlatformOperator list"
  FailingErrors :: "error list"

definition is_failure_reason :: "Condition \<Rightarrow> bool" where
  "is_failure_reason condition \<longleftrightarrow>
     Reason condition = ReasonSourceFailed \<or> Reason condition = ReasonApplyFailed"

text \<open>The inner loop of \<^verbatim>\<open>inspectPlatformOperators\<close>, over the conditions of one member.\<close>

fun inspect_conditions :: "PlatformOperator \<Rightarrow> Condition list \<Rightarrow> POStatusErrors \<Rightarrow> POStatusErrors" where
  "inspect_conditions po [] POstatuses = POstatuses"
| "inspect_conditions po (condition # rest) POstatuses =
     inspect_conditions po rest
       (if is_failure_reason condition
        then POstatuses
          \<lparr>FailingPOs := FailingPOs POstatuses @ [po],
           FailingErrors := FailingErrors POstatuses @
             [errors_New (failing_message (Name po) (Reason condition))]\<rparr>
        else POstatuses)"

text \<open>The outer loop, over the items of the list (each a deep copy of the member).\<close>

fun inspect_items :: "PlatformOperator list \<Rightarrow> POStatusErrors \<Rightarrow> POStatusErrors" where
  "inspect_items [] POstatuses = POstatuses"
| "inspect_items (po # rest) POstatuses =
     inspect_items rest (inspect_conditions po (Conditions po) POstatuses)"

text \<open>\<open>None\<close> is the nil pointer: no failing member was found.\<close>

definition inspectPlatformOperators :: "PlatformOperator list \<Rightarrow> POStatusErrors option" where
  "inspectPlatformOperators Items =
     (let POstatuses = inspect_items Items \<lparr>FailingPOs = [], FailingErrors = []\<rparr>
      in if length (FailingPOs POstatuses) > 0 \<or> length (FailingErrors POstatuses) > 0
         then Some POstatuses else None)"

section \<open>The aggregate of errors\<close>

text \<open>
  \<^verbatim>\<open>utilerror.NewAggregate(errs).Error()\<close> comes from the Kubernetes library
  \<^verbatim>\<open>k8s.io/apimachinery/pkg/util/errors\<close>. \<^verbatim>\<open>NewAggregate\<close> returns nil for an empty
  slice (here \<open>None\<close>; calling \<^verbatim>\<open>Error\<close> on it panics; nil elements, which it
  would drop, do not occur in a list of \<open>error\<close> values). \<^verbatim>\<open>Error\<close> returns the
  message of a single error as it is; for several errors it visits them in order, skips a
  message it has seen before, separates the others by a comma and a blank, and puts the
  result into square brackets unless only one distinct message was seen. The set
  \<^verbatim>\<open>seenerrs\<close> is kept as the list of its elements in the order of insertion.
\<close>

definition NewAggregate :: "error list \<Rightarrow> error list option" where
  "NewAggregate errlist = (if length errlist = 0 then None else Some errlist)"

fun aggregate_visit :: "error list \<Rightarrow> string list \<Rightarrow> string \<Rightarrow> string list \<times> string" where
  "aggregate_visit [] seenerrs result = (seenerrs, result)"
| "aggregate_visit (err # rest) seenerrs result =
     (let msg = Error err in
      if msg \<in> set seenerrs then aggregate_visit rest seenerrs result
      else
        (let seenerrs' = seenerrs @ [msg];
             result' = (if length seenerrs' > 1 then result @ '', '' else result)
         in aggregate_visit rest seenerrs' (result' @ msg)))"

definition aggregate_Error :: "error list \<Rightarrow> string" where
  "aggregate_Error agg =
     (if length agg = 0 then ''''
      else if length agg = 1 then Error (hd agg)
      else
        (case aggregate_visit agg [] '''' of
           (seenerrs, result) \<Rightarrow>
             if length seenerrs = 1 then result else ''['' @ result @ '']''))"

section \<open>The status builder\<close>

datatype ConditionStatus = ConditionTrue | ConditionFalse | ConditionUnknown

text \<open>The three condition slots of the composite status; \<open>None\<close> is a slot not set yet.\<close>

record ProgressingCondition =
  progressing_status :: ConditionStatus
  progressing_reason :: string

record AvailableCondition =
  available_status :: ConditionStatus
  available_reason :: string
  available_message :: string

record CompositeStatus =
  Progressing :: "ProgressingCondition option"
  Degraded :: "ConditionStatus option"
  Available :: "AvailableCondition option"

text \<open>
  Modelled from the spec: the builder of the package \<^verbatim>\<open>internal/aggregated-co\<close>
  (\<^verbatim>\<open>NewBuilder\<close>, \<^verbatim>\<open>WithProgressing\<close>, \<^verbatim>\<open>WithDegraded\<close>, \<^verbatim>\<open>WithAvailable\<close>,
  \<^verbatim>\<open>GetStatus\<close>) is not among the sources. The spec describes it as an accumulator of
  the three slots without branching, where the last write of a slot wins, and
  \<^verbatim>\<open>GetStatus\<close> reads the snapshot. The spec lists the parameters of
  \<^verbatim>\<open>WithAvailable\<close> as (isTrue, reason, message), while its terminal states and its
  examples put the second argument of the calls in \<^verbatim>\<open>Reconcile\<close> (the aggregate of the
  failure messages) into the message and the third one (\<^verbatim>\<open>No POs Found\<close>,
  \<^verbatim>\<open>PO In An Error State\<close>) into the reason. The setter below takes its arguments in
  the order of the calls and records them as the terminal states and examples say.
\<close>

type_synonym Builder = CompositeStatus

definition NewBuilder :: Builder where
  "NewBuilder = \<lparr>Progressing = None, Degraded = None, Available = None\<rparr>"

definition WithProgressing :: "ConditionStatus \<Rightarrow> string \<Rightarrow> Builder \<Rightarrow> Builder" where
  "WithProgressing isTrue rsn b =
     b\<lparr>Progressing := Some \<lparr>progressing_status = isTrue, progressing_reason = rsn\<rparr>\<rparr>"

definition WithDegraded :: "ConditionStatus \<Rightarrow> Builder \<Rightarrow> Builder" where
  "WithDegraded isTrue b = b\<lparr>Degraded := Some isTrue\<rparr>"

definition WithAvailable :: "ConditionStatus \<Rightarrow> string \<Rightarrow> string \<Rightarrow> Builder \<Rightarrow> Builder" where
  "WithAvailable isTrue msg rsn b =
     b\<lparr>Available := Some \<lparr>available_status = isTrue, available_reason = rsn,
                          available_message = msg\<rparr>\<rparr>"

definition GetStatus :: "Builder \<Rightarrow> CompositeStatus" where
  "GetStatus b = b"

section \<open>The status writer\<close>

text \<open>
  Modelled from the spec: the writer of the package \<^verbatim>\<open>internal/aggregated-co\<close>
  (\<^verbatim>\<open>NewWriter\<close>, \<^verbatim>\<open>UpdateStatus\<close>) is not among the sources. By the spec,
  \<^verbatim>\<open>UpdateStatus\<close> compares the target's persisted status with the desired one field by
  field; if they are identical it writes nothing; if they differ it issues exactly one
  update call to the store; a failure of that call is returned and not retried. The first
  argument is the failure of the store's update call, should one be issued. The result
  is the error returned, the update calls issued and the status persisted afterwards.
\<close>

definition UpdateStatus ::
  "error option \<Rightarrow> CompositeStatus \<Rightarrow> CompositeStatus \<Rightarrow>
   error option \<times> CompositeStatus list \<times> CompositeStatus" where
  "UpdateStatus fault persisted desired =
     (if persisted = desired then (None, [], persisted)
      else (case fault of
              None \<Rightarrow> (None, [desired], desired)
            | Some err \<Rightarrow> (Some err, [desired], persisted)))"

section \<open>Reconcile\<close>

text \<open>
  The cluster as far as the controller sees it: the persisted status of the composite
  target (\<open>None\<close> when the object named by the request does not exist).
\<close>

record Cluster =
  target :: "CompositeStatus option"

text \<open>
  What the external collaborators do during one invocation: a failure of the fetch of the
  target, if any; the result of listing the members; a failure of the store's status
  update, should it be called.
\<close>

record Env =
  get_fault :: "error option"
  list_result :: "error + PlatformOperator list"
  write_fault :: "error option"

definition Get :: "Env \<Rightarrow> Cluster \<Rightarrow> error + CompositeStatus" where
  "Get env cl =
     (case get_fault env of
        Some err \<Rightarrow> Inl err
      | None \<Rightarrow>
          (case target cl of
             None \<Rightarrow> Inl (StatusNotFound ''clusteroperator not found'')
           | Some st \<Rightarrow> Inr st))"

text \<open>How the body of \<^verbatim>\<open>Reconcile\<close> is left: by a return, or by a panic.\<close>

datatype Exit = Return "error option" | Panic

text \<open>
  The body of \<^verbatim>\<open>Reconcile\<close> after the deferred status write has been registered (lines
  79 to 107): the exit, the builder as it stands then, and the errors logged.
\<close>

definition Reconcile_body :: "Env \<Rightarrow> Builder \<Rightarrow> Exit \<times> Builder \<times> (string \<times> error) list" where
  "Reconcile_body env coBuilder =
     (let b = WithAvailable ConditionFalse '''' ''''
                (WithDegraded ConditionFalse
                  (WithProgressing ConditionTrue '''' coBuilder))
      in case list_result env of
           Inl err \<Rightarrow> (Return (Some err), b, [(''error listing platformoperators'', err)])
         | Inr Items \<Rightarrow>
             if length Items = 0
             then (Return None, WithAvailable ConditionTrue '''' ''No POs Found'' b, [])
             else
               (case inspectPlatformOperators Items of
                  Some statusErrorCheck \<Rightarrow>
                    (let b' = WithDegraded ConditionTrue b in
                     case NewAggregate (FailingErrors statusErrorCheck) of
                       None \<Rightarrow> (Panic, b', [])
                     | Some agg \<Rightarrow>
                         (Return None,
                          WithAvailable ConditionFalse (aggregate_Error agg)
                            ''PO In An Error State'' b', []))
                | None \<Rightarrow>
                    (Return None,
                     WithAvailable ConditionTrue ''All POs in a successful state''
                       ''POs Are Healthy'' b, [])))"

text \<open>
  The outcome of one invocation: how it was left, the statuses that
  \<^verbatim>\<open>coWriter.UpdateStatus\<close> was called with, the update calls issued to the store, the
  errors logged, and the cluster afterwards.
\<close>

record Outcome =
  exit :: Exit
  update_calls :: "CompositeStatus list"
  writes :: "CompositeStatus list"
  logged :: "(string \<times> error) list"
  cluster :: Cluster

text \<open>
  \<^verbatim>\<open>Reconcile\<close>: when the fetch of the target fails it returns before the deferred
  function is registered; otherwise the deferred function runs once when the body is
  left, whichever way, and writes the snapshot of the builder. The \<^verbatim>\<open>ctrl.Result\<close>
  returned is empty on every path and is left out, as are the two informational log
  lines.
\<close>

definition Reconcile :: "Env \<Rightarrow> Cluster \<Rightarrow> Outcome" where
  "Reconcile env cl =
     (case Get env cl of
        Inl err \<Rightarrow>
          \<lparr>exit = Return (IgnoreNotFound err), update_calls = [], writes = [],
           logged = [], cluster = cl\<rparr>
      | Inr aggregatedCO \<Rightarrow>
          (case Reconcile_body env NewBuilder of
             (ex, coBuilder, lg) \<Rightarrow>
               (case UpdateStatus (write_fault env) aggregatedCO (GetStatus coBuilder) of
                  (werr, ws, persisted) \<Rightarrow>
                    \<lparr>exit = ex, update_calls = [GetStatus coBuilder], writes = ws,
                     logged = lg @ (case werr of
                                      None \<Rightarrow> []
                                    | Some err \<Rightarrow> [(''error updating CO status'', err)]),
                     cluster = cl\<lparr>target := Some persisted\<rparr>\<rparr>)))"

section \<open>The report in traversal order\<close>

text \<open>
  What the two loops are expected to produce, written without accumulators: for every
  member in the order of the list, and for every condition of the member in the order of
  its status that carries a failure reason, one pair of the member and the error.
\<close>

definition member_entries :: "PlatformOperator \<Rightarrow> (PlatformOperator \<times> error) list" where
  "member_entries po =
     map (\<lambda>c. (po, errors_New (failing_message (Name po) (Reason c))))
       (filter is_failure_reason (Conditions po))"

definition failing_entries :: "PlatformOperator list \<Rightarrow> (PlatformOperator \<times> error) list" where
  "failing_entries Items = concat (map member_entries Items)"

definition is_failing :: "PlatformOperator \<Rightarrow> bool" where
  "is_failing po \<longleftrightarrow> list_ex is_failure_reason (Conditions po)"

text \<open>
  The combined message, written without the loop: the messages in the order of their
  first occurrence, separated by a comma and a blank, in square brackets when there is
  more than one.
\<close>

fun join_messages :: "string list \<Rightarrow> string" where
  "join_messages [] = ''''"
| "join_messages [m] = m"
| "join_messages (m # m' # ms) = m @ '', '' @ join_messages (m' # ms)"

fun unseen :: "string list \<Rightarrow> string list \<Rightarrow> string list" where
  "unseen seen [] = []"
| "unseen seen (m # ms) =
     (if m \<in> set seen then unseen seen ms else m # unseen (seen @ [m]) ms)"

definition combined_message :: "string list \<Rightarrow> string" where
  "combined_message msgs =
     (let ms = unseen [] msgs
      in if length ms \<le> 1 then join_messages ms else ''['' @ join_messages ms @ '']'')"

section \<open>The terminal states of the composite status\<close>


definition initial_status :: CompositeStatus where
  "initial_status =
     \<lparr>Progressing = Some \<lparr>progressing_status = ConditionTrue, progressing_reason = ''''\<rparr>,
      Degraded = Some ConditionFalse,
      Available = Some \<lparr>available_status = ConditionFalse, available_reason = '''',
                        available_message = ''''\<rparr>\<rparr>"



section \<open>Example inputs\<close>

definition po_healthy :: PlatformOperator where
  "po_healthy =
     \<lparr>Name = ''A'',
      Conditions = [\<lparr>Type = ''Installed'', Reason = ''InstallSuccessful'', Message = ''ok''\<rparr>]\<rparr>"

definition po_source_failed :: PlatformOperator where
  "po_source_failed =
     \<lparr>Name = ''B'',
      Conditions = [\<lparr>Type = ''Installed'', Reason = ''SourceFailed'', Message = ''no bundle''\<rparr>]\<rparr>"

definition po_two_failures :: PlatformOperator where
  "po_two_failures =
     \<lparr>Name = ''C'',
      Conditions =
        [\<lparr>Type = ''Installed'', Reason = ''SourceFailed'', Message = ''no bundle''\<rparr>,
         \<lparr>Type = ''Applied'', Reason = ''ApplyFailed'', Message = ''rejected''\<rparr>]\<rparr>"

definition env_lists :: "PlatformOperator list \<Rightarrow> Env" where
  "env_lists Items = \<lparr>get_fault = None, list_result = Inr Items, write_fault = None\<rparr>"

definition env_list_fails :: Env where
  "env_list_fails =
     \<lparr>get_fault = None, list_result = Inl (ErrorString ''connection refused''),
      write_fault = None\<rparr>"

definition env_get_fails :: Env where
  "env_get_fails =
     \<lparr>get_fault = Some (ErrorString ''connection refused''), list_result = Inr [],
      write_fault = None\<rparr>"

definition env_write_fails :: "PlatformOperator list \<Rightarrow> Env" where
  "env_write_fails Items =
     \<lparr>get_fault = None, list_result = Inr Items,
      write_fault = Some (ErrorString ''conflict'')\<rparr>"

definition cluster_fresh :: Cluster where
  "cluster_fresh = \<lparr>target = Some NewBuilder\<rparr>"

definition cluster_without_target :: Cluster where
  "cluster_without_target = \<lparr>target = None\<rparr>"




section \<open>Properties of the inspection\<close>

lemma inspect_conditions_eq:
  "inspect_conditions po cs acc =
     acc\<lparr>FailingPOs := FailingPOs acc @ map (\<lambda>c. po) (filter is_failure_reason cs),
         FailingErrors := FailingErrors acc @
           map (\<lambda>c. errors_New (failing_message (Name po) (Reason c)))
             (filter is_failure_reason cs)\<rparr>"
  by (induction cs arbitrary: acc) simp_all

lemma inspect_items_eq:
  "inspect_items Items acc =
     acc\<lparr>FailingPOs := FailingPOs acc @ map fst (failing_entries Items),
         FailingErrors := FailingErrors acc @ map snd (failing_entries Items)\<rparr>"
  by (induction Items arbitrary: acc)
     (simp_all add: failing_entries_def member_entries_def inspect_conditions_eq comp_def)

lemma inspectPlatformOperators_eq:
  "inspectPlatformOperators Items =
     (if failing_entries Items = [] then None
      else Some \<lparr>FailingPOs = map fst (failing_entries Items),
                 FailingErrors = map snd (failing_entries Items)\<rparr>)"
  by (simp add: inspectPlatformOperators_def inspect_items_eq Let_def)

lemma member_entries_Nil_iff: "member_entries po = [] \<longleftrightarrow> \<not> is_failing po"
  by (simp add: member_entries_def is_failing_def list_ex_iff filter_empty_conv)

lemma failing_entries_Nil_iff: "failing_entries Items = [] \<longleftrightarrow> \<not> list_ex is_failing Items"
  by (simp add: failing_entries_def member_entries_Nil_iff list_ex_iff)

lemma strconv_Quote_failure_reason:
  "is_failure_reason c \<Longrightarrow> strconv_Quote (Reason c) = [CHR 0x22] @ Reason c @ [CHR 0x22]"
  by (auto simp add: is_failure_reason_def ReasonSourceFailed_def ReasonApplyFailed_def
      strconv_Quote_def quote_char_def)

section \<open>Properties of the aggregate\<close>

lemma join_messages_snoc:
  "join_messages (ms @ [m]) = (if ms = [] then m else join_messages ms @ '', '' @ m)"
  by (induction ms rule: join_messages.induct) simp_all

lemma aggregate_visit_eq:
  "aggregate_visit errs seen (join_messages seen) =
     (seen @ unseen seen (map Error errs),
      join_messages (seen @ unseen seen (map Error errs)))"
proof (induction errs arbitrary: seen)
  case Nil
  show ?case by simp
next
  case (Cons err rest)
  show ?case
  proof (cases "Error err \<in> set seen")
    case True
    then show ?thesis using Cons.IH [of seen] by simp
  next
    case False
    have "join_messages (seen @ [Error err]) =
        (if length (seen @ [Error err]) > 1 then join_messages seen @ '', '' else join_messages seen)
          @ Error err"
      by (simp add: join_messages_snoc)
    then show ?thesis
      using False Cons.IH [of "seen @ [Error err]"] by (simp add: Let_def)
  qed
qed

lemma unseen_nonempty: "msgs \<noteq> [] \<Longrightarrow> unseen [] msgs \<noteq> []"
  by (cases msgs) simp_all

lemma aggregate_Error_eq: "aggregate_Error errs = combined_message (map Error errs)"
proof (cases errs)
  case Nil
  then show ?thesis by (simp add: aggregate_Error_def combined_message_def)
next
  case (Cons e rest)
  show ?thesis
  proof (cases rest)
    case Nil
    with Cons show ?thesis by (simp add: aggregate_Error_def combined_message_def)
  next
    case (Cons e' rest')
    have ne: "unseen [] (map Error errs) \<noteq> []"
      using \<open>errs = e # rest\<close> by (simp add: unseen_nonempty)
    have "aggregate_visit errs [] '''' =
        (unseen [] (map Error errs), join_messages (unseen [] (map Error errs)))"
      using aggregate_visit_eq [of errs "[]"] by simp
    moreover have "length errs \<noteq> 0" "length errs \<noteq> 1"
      using \<open>errs = e # rest\<close> Cons by simp_all
    ultimately show ?thesis
      using ne by (cases "unseen [] (map Error errs)")
        (auto simp add: aggregate_Error_def combined_message_def Let_def)
  qed
qed

lemma unseen_distinct:
  "distinct msgs \<Longrightarrow> set seen \<inter> set msgs = {} \<Longrightarrow> unseen seen msgs = msgs"
  by (induction msgs arbitrary: seen) auto

text \<open>When no message is repeated, all of them are joined.\<close>

lemma combined_message_distinct:
  "distinct msgs \<Longrightarrow>
   combined_message msgs =
     (if length msgs \<le> 1 then join_messages msgs else ''['' @ join_messages msgs @ '']'')"
  by (simp add: combined_message_def unseen_distinct)


section \<open>Properties of Reconcile\<close>

lemma builder_defaults:
  "WithAvailable ConditionFalse '''' ''''
     (WithDegraded ConditionFalse (WithProgressing ConditionTrue '''' NewBuilder)) = initial_status"
  by (simp add: WithAvailable_def WithDegraded_def WithProgressing_def NewBuilder_def
      initial_status_def)

lemma Reconcile_body_list_error:
  "list_result env = Inl err \<Longrightarrow>
   Reconcile_body env NewBuilder =
     (Return (Some err), initial_status, [(''error listing platformoperators'', err)])"
  by (simp add: Reconcile_body_def builder_defaults)

lemma Reconcile_body_empty:
  "list_result env = Inr [] \<Longrightarrow>
   Reconcile_body env NewBuilder =
     (Return None,
      initial_status\<lparr>Available := Some \<lparr>available_status = ConditionTrue,
        available_reason = ''No POs Found'', available_message = ''''\<rparr>\<rparr>, [])"
  by (simp add: Reconcile_body_def WithAvailable_def WithDegraded_def WithProgressing_def
      NewBuilder_def initial_status_def)

lemma Reconcile_body_failing:
  assumes "list_result env = Inr Items" and "inspectPlatformOperators Items = Some r"
  shows "Reconcile_body env NewBuilder =
     (Return None,
      initial_status\<lparr>Degraded := Some ConditionTrue,
        Available := Some \<lparr>available_status = ConditionFalse,
          available_reason = ''PO In An Error State'',
          available_message = aggregate_Error (FailingErrors r)\<rparr>\<rparr>, [])"
proof -
  from assms(2) have "failing_entries Items \<noteq> []"
    and r: "r = \<lparr>FailingPOs = map fst (failing_entries Items),
                  FailingErrors = map snd (failing_entries Items)\<rparr>"
    by (auto simp add: inspectPlatformOperators_eq split: if_splits)
  then have "Items \<noteq> []" and "FailingErrors r \<noteq> []"
    by (auto simp add: failing_entries_def)
  with assms show ?thesis
    by (simp add: Reconcile_body_def NewAggregate_def WithAvailable_def WithDegraded_def
        WithProgressing_def NewBuilder_def initial_status_def)
qed


lemma Reconcile_fetched:
  assumes "Get env cl = Inr aggregatedCO"
  shows "exit (Reconcile env cl) = fst (Reconcile_body env NewBuilder)"
    and "update_calls (Reconcile env cl) = [fst (snd (Reconcile_body env NewBuilder))]"
    and "writes (Reconcile env cl) =
      fst (snd (UpdateStatus (write_fault env) aggregatedCO
        (fst (snd (Reconcile_body env NewBuilder)))))"
    and "target (cluster (Reconcile env cl)) =
      Some (snd (snd (UpdateStatus (write_fault env) aggregatedCO
        (fst (snd (Reconcile_body env NewBuilder))))))"
  using assms by (simp_all add: Reconcile_def GetStatus_def split: prod.splits)

lemma Reconcile_not_fetched:
  assumes "Get env cl = Inl err"
  shows "Reconcile env cl =
    \<lparr>exit = Return (IgnoreNotFound err), update_calls = [], writes = [], logged = [],
     cluster = cl\<rparr>"
  using assms by (simp add: Reconcile_def)

lemma Reconcile_body_returns: "fst (Reconcile_body env NewBuilder) \<noteq> Panic"
proof (cases "list_result env")
  case (Inl err)
  then show ?thesis by (simp add: Reconcile_body_list_error)
next
  case (Inr Items)
  show ?thesis
  proof (cases "inspectPlatformOperators Items")
    case None
    with Inr show ?thesis by (simp add: Reconcile_body_def Let_def)
  next
    case (Some r)
    show ?thesis by (simp add: Reconcile_body_failing [OF Inr Some])
  qed
qed

lemma Reconcile_never_panics: "exit (Reconcile env cl) \<noteq> Panic"
proof (cases "Get env cl")
  case (Inl err)
  then show ?thesis by (simp add: Reconcile_not_fetched [OF Inl])
next
  case (Inr aggregatedCO)
  then show ?thesis by (simp add: Reconcile_fetched(1) [OF Inr] Reconcile_body_returns)
qed

lemma Reconcile_body_cong:
  "list_result env2 = list_result env1 \<Longrightarrow> Reconcile_body env2 b = Reconcile_body env1 b"
  by (simp add: Reconcile_body_def)


lemma Get_example [simp]:
  "Get (env_lists Items) cluster_fresh = Inr NewBuilder"
  "Get env_list_fails cluster_fresh = Inr NewBuilder"
  "Get (env_write_fails Items) cluster_fresh = Inr NewBuilder"
  by (simp_all add: Get_def env_lists_def env_list_fails_def env_write_fails_def
      cluster_fresh_def)

text \<open>
  C1. For every list of members, \<^verbatim>\<open>inspectPlatformOperators\<close> returns a report (a
  non-nil pointer) if and only if some member has a condition whose reason is
  \<^verbatim>\<open>SourceFailed\<close> or \<^verbatim>\<open>ApplyFailed\<close>; the empty list yields nil. The function has no
  error result: it is total, and nil is the healthy verdict.
\<close>

theorem inspect_report_iff_failure:
  "(inspectPlatformOperators Items \<noteq> None \<longleftrightarrow>
      (\<exists>po \<in> set Items. \<exists>c \<in> set (Conditions po).
         Reason c = ReasonSourceFailed \<or> Reason c = ReasonApplyFailed)) \<and>
   inspectPlatformOperators [] = None"
proof -
  have "inspectPlatformOperators Items \<noteq> None \<longleftrightarrow> list_ex is_failing Items"
    by (simp add: inspectPlatformOperators_eq failing_entries_Nil_iff)
  moreover have "inspectPlatformOperators [] = None"
    by (simp add: inspectPlatformOperators_def)
  ultimately show ?thesis
    by (simp add: list_ex_iff is_failing_def is_failure_reason_def)
qed

theorem inspect_report_iff_failure_witness:
  "inspectPlatformOperators [po_healthy, po_source_failed] \<noteq> None \<and>
   inspectPlatformOperators [po_healthy] = None"
  using inspect_report_iff_failure [of "[po_healthy, po_source_failed]"]
    inspect_report_iff_failure [of "[po_healthy]"]
  by (simp add: po_healthy_def po_source_failed_def ReasonSourceFailed_def
      ReasonApplyFailed_def)




text \<open>
  C3. In every invocation that fetches the target and lists no member, \<^verbatim>\<open>Reconcile\<close>
  returns nil and the status handed to the deferred write has Available true with the
  reason \<^verbatim>\<open>No POs Found\<close>, while Degraded keeps its initial value false (and
  Progressing its initial value true).
\<close>

theorem reconcile_empty_fleet:
  assumes "Get env cl = Inr aggregatedCO" and "list_result env = Inr []"
  shows "exit (Reconcile env cl) = Return None \<and>
     update_calls (Reconcile env cl) =
       [\<lparr>Progressing = Some \<lparr>progressing_status = ConditionTrue, progressing_reason = ''''\<rparr>,
         Degraded = Some ConditionFalse,
         Available = Some \<lparr>available_status = ConditionTrue,
           available_reason = ''No POs Found'', available_message = ''''\<rparr>\<rparr>]"
  using Reconcile_fetched(1,2) [OF assms(1)] Reconcile_body_empty [OF assms(2)]
  by (simp add: initial_status_def)

theorem reconcile_empty_fleet_witness:
  "exit (Reconcile (env_lists []) cluster_fresh) = Return None \<and>
   update_calls (Reconcile (env_lists []) cluster_fresh) =
       [\<lparr>Progressing = Some \<lparr>progressing_status = ConditionTrue, progressing_reason = ''''\<rparr>,
         Degraded = Some ConditionFalse,
         Available = Some \<lparr>available_status = ConditionTrue,
           available_reason = ''No POs Found'', available_message = ''''\<rparr>\<rparr>]"
proof -
  have g: "Get (env_lists []) cluster_fresh = Inr NewBuilder" by simp
  have l: "list_result (env_lists []) = Inr []" by (simp add: env_lists_def)
  from reconcile_empty_fleet [OF g l] show ?thesis .
qed

text \<open>
  The form without quotes does not describe the messages: for the member \<^verbatim>\<open>B\<close> with
  the reason \<^verbatim>\<open>SourceFailed\<close> the report holds the message with the quoted reason, which
  differs from name, \<^verbatim>\<open> is failing: \<close> and the bare reason.
\<close>

theorem inspect_unquoted_message_counterexample:
  "inspectPlatformOperators [po_source_failed] =
     Some \<lparr>FailingPOs = [po_source_failed],
       FailingErrors =
         [ErrorString (''B is failing: '' @ [CHR 0x22] @ ''SourceFailed'' @ [CHR 0x22])]\<rparr> \<and>
   ''B is failing: '' @ [CHR 0x22] @ ''SourceFailed'' @ [CHR 0x22] \<noteq>
     Name po_source_failed @ '' is failing: '' @ ''SourceFailed''"
  by (simp add: inspectPlatformOperators_def po_source_failed_def
      is_failure_reason_def ReasonSourceFailed_def ReasonApplyFailed_def errors_New_def
      failing_message_def strconv_Quote_def quote_char_def)

text \<open>
  C4, amended. The errors of a report are, member by member in the order of the list, one
  message for every condition of the member whose reason is a failure reason, in the
  order of the conditions; so a member with two such conditions yields two messages. Each
  message is the member's name, the text \<^verbatim>\<open> is failing: \<close> and the reason enclosed in
  double quotes, which is how \<^verbatim>\<open>%q\<close> writes it.
\<close>

theorem inspect_message_per_condition:
  assumes "inspectPlatformOperators Items = Some r"
  shows "FailingErrors r =
     concat (map (\<lambda>po. map (\<lambda>c. ErrorString
         (Name po @ '' is failing: '' @ [CHR 0x22] @ Reason c @ [CHR 0x22]))
       (filter is_failure_reason (Conditions po))) Items)"
proof -
  have eq: "map (\<lambda>c. errors_New (failing_message (Name po) (Reason c)))
          (filter is_failure_reason cs) =
        map (\<lambda>c. ErrorString (Name po @ '' is failing: '' @ [CHR 0x22] @ Reason c @ [CHR 0x22]))
          (filter is_failure_reason cs)" for po cs
    by (rule map_cong)
      (simp_all add: errors_New_def failing_message_def strconv_Quote_failure_reason)
  have "map snd (failing_entries Items) =
     concat (map (\<lambda>po. map (\<lambda>c. ErrorString
         (Name po @ '' is failing: '' @ [CHR 0x22] @ Reason c @ [CHR 0x22]))
       (filter is_failure_reason (Conditions po))) Items)"
    by (simp add: failing_entries_def member_entries_def map_concat comp_def eq)
  with assms show ?thesis
    by (auto simp add: inspectPlatformOperators_eq split: if_splits)
qed

theorem inspect_message_per_condition_witness:
  "FailingErrors
     \<lparr>FailingPOs = [po_two_failures, po_two_failures],
      FailingErrors =
        [ErrorString (''C is failing: '' @ [CHR 0x22] @ ''SourceFailed'' @ [CHR 0x22]),
         ErrorString (''C is failing: '' @ [CHR 0x22] @ ''ApplyFailed'' @ [CHR 0x22])]\<rparr> =
   concat (map (\<lambda>po. map (\<lambda>c. ErrorString
         (Name po @ '' is failing: '' @ [CHR 0x22] @ Reason c @ [CHR 0x22]))
       (filter is_failure_reason (Conditions po))) [po_healthy, po_two_failures]) \<and>
   inspectPlatformOperators [po_healthy, po_two_failures] =
     Some \<lparr>FailingPOs = [po_two_failures, po_two_failures],
      FailingErrors =
        [ErrorString (''C is failing: '' @ [CHR 0x22] @ ''SourceFailed'' @ [CHR 0x22]),
         ErrorString (''C is failing: '' @ [CHR 0x22] @ ''ApplyFailed'' @ [CHR 0x22])]\<rparr>"
proof -
  have i: "inspectPlatformOperators [po_healthy, po_two_failures] =
     Some \<lparr>FailingPOs = [po_two_failures, po_two_failures],
      FailingErrors =
        [ErrorString (''C is failing: '' @ [CHR 0x22] @ ''SourceFailed'' @ [CHR 0x22]),
         ErrorString (''C is failing: '' @ [CHR 0x22] @ ''ApplyFailed'' @ [CHR 0x22])]\<rparr>"
    by (simp add: inspectPlatformOperators_def po_healthy_def po_two_failures_def
        is_failure_reason_def ReasonSourceFailed_def ReasonApplyFailed_def errors_New_def
        failing_message_def strconv_Quote_def quote_char_def)
  from inspect_message_per_condition [OF i] i show ?thesis by simp
qed




lemma UpdateStatus_writes_le: "length (fst (snd (UpdateStatus fault st desired))) \<le> 1"
  by (simp add: UpdateStatus_def split: option.splits)

lemma Reconcile_writes_le: "length (writes (Reconcile env cl)) \<le> 1"
proof (cases "Get env cl")
  case (Inl err)
  then show ?thesis by (simp add: Reconcile_not_fetched [OF Inl])
next
  case (Inr st)
  show ?thesis
    using UpdateStatus_writes_le [of "write_fault env" st]
    by (simp add: Reconcile_fetched(3) [OF Inr])
qed

text \<open>
  Two invocations over the same (empty) member list can issue two update calls: the store
  fails the update call of the first one, so the persisted status stays as it was and
  the second invocation, far from being a no-op, issues the call again.
\<close>

theorem two_invocations_two_writes_counterexample:
  "length (writes (Reconcile (env_write_fails []) cluster_fresh)) +
   length (writes (Reconcile (env_lists [])
     (cluster (Reconcile (env_write_fails []) cluster_fresh)))) = 2"
  by (simp add: Reconcile_def Get_def env_write_fails_def env_lists_def cluster_fresh_def
      Reconcile_body_def UpdateStatus_def GetStatus_def NewBuilder_def WithAvailable_def
      WithDegraded_def WithProgressing_def)

text \<open>
  C6, amended. \<^verbatim>\<open>UpdateStatus\<close> issues no update call when the desired status is
  identical to the persisted one. Hence two invocations in a row whose listings give the
  same result issue at most one update call between them, and the second one issues none
  when the first one reached its status write, provided that the store did not fail the
  update call of the first invocation.
\<close>

theorem update_status_idempotent:
  "UpdateStatus fault st st = (None, [], st) \<and>
   (list_result env2 = list_result env1 \<and> write_fault env1 = None \<longrightarrow>
      length (writes (Reconcile env1 cl)) +
        length (writes (Reconcile env2 (cluster (Reconcile env1 cl)))) \<le> 1 \<and>
      (update_calls (Reconcile env1 cl) \<noteq> [] \<longrightarrow>
         writes (Reconcile env2 (cluster (Reconcile env1 cl))) = []))"
proof -
  have idem: "UpdateStatus fault st st = (None, [], st)" for fault st
    by (simp add: UpdateStatus_def)
  have two: "length (writes (Reconcile env1 cl)) +
        length (writes (Reconcile env2 (cluster (Reconcile env1 cl)))) \<le> 1 \<and>
      (update_calls (Reconcile env1 cl) \<noteq> [] \<longrightarrow>
         writes (Reconcile env2 (cluster (Reconcile env1 cl))) = [])"
    if same: "list_result env2 = list_result env1" and ok: "write_fault env1 = None"
  proof (cases "Get env1 cl")
    case (Inl err)
    then show ?thesis
      using Reconcile_writes_le [of env2 cl] by (simp add: Reconcile_not_fetched [OF Inl])
  next
    case (Inr persisted)
    define desired where "desired = fst (snd (Reconcile_body env1 NewBuilder))"
    have t: "target (cluster (Reconcile env1 cl)) = Some desired"
      using Reconcile_fetched(4) [OF Inr] ok by (simp add: desired_def UpdateStatus_def)
    have w1: "length (writes (Reconcile env1 cl)) \<le> 1"
      by (rule Reconcile_writes_le)
    have w2: "writes (Reconcile env2 (cluster (Reconcile env1 cl))) = []"
    proof (cases "Get env2 (cluster (Reconcile env1 cl))")
      case (Inl err)
      then show ?thesis by (simp add: Reconcile_not_fetched [OF Inl])
    next
      case (Inr persisted')
      then have "persisted' = desired"
        using t by (simp add: Get_def split: option.splits)
      then show ?thesis
        by (simp add: Reconcile_fetched(3) [OF Inr] Reconcile_body_cong [OF same] desired_def idem)
    qed
    from w1 w2 show ?thesis by simp
  qed
  from idem two show ?thesis by blast
qed

theorem update_status_idempotent_witness:
  "writes (Reconcile (env_lists [po_source_failed]) cluster_fresh) =
     [\<lparr>Progressing = Some \<lparr>progressing_status = ConditionTrue, progressing_reason = ''''\<rparr>,
       Degraded = Some ConditionTrue,
       Available = Some \<lparr>available_status = ConditionFalse,
         available_reason = ''PO In An Error State'',
         available_message = ''B is failing: '' @ [CHR 0x22] @ ''SourceFailed'' @ [CHR 0x22]\<rparr>\<rparr>] \<and>
   writes (Reconcile (env_lists [po_source_failed])
     (cluster (Reconcile (env_lists [po_source_failed]) cluster_fresh))) = []"
proof -
  have w: "writes (Reconcile (env_lists [po_source_failed]) cluster_fresh) =
     [\<lparr>Progressing = Some \<lparr>progressing_status = ConditionTrue, progressing_reason = ''''\<rparr>,
       Degraded = Some ConditionTrue,
       Available = Some \<lparr>available_status = ConditionFalse,
         available_reason = ''PO In An Error State'',
         available_message = ''B is failing: '' @ [CHR 0x22] @ ''SourceFailed'' @ [CHR 0x22]\<rparr>\<rparr>]"
    by (simp add: Reconcile_def Get_def env_lists_def cluster_fresh_def
      Reconcile_body_def UpdateStatus_def GetStatus_def NewBuilder_def WithAvailable_def
      WithDegraded_def WithProgressing_def inspectPlatformOperators_def po_source_failed_def
      is_failure_reason_def ReasonSourceFailed_def ReasonApplyFailed_def errors_New_def
      failing_message_def strconv_Quote_def quote_char_def NewAggregate_def aggregate_Error_def)
  have u: "update_calls (Reconcile (env_lists [po_source_failed]) cluster_fresh) \<noteq> []"
    by (simp add: Reconcile_fetched(2) [OF Get_example(1)])
  have "write_fault (env_lists [po_source_failed]) = None"
    by (simp add: env_lists_def)
  with update_status_idempotent [of _ _ "env_lists [po_source_failed]"
      "env_lists [po_source_failed]" cluster_fresh] u w
  show ?thesis by simp
qed






text \<open>
  C8. The report is a function of the member list, and its entries stand in the order in
  which the list and the conditions are traversed: the failing members and the errors are
  the two projections of \<open>failing_entries\<close>, which puts the entries of an earlier
  member before those of a later one and is compatible with splitting the list. The
  combined message is a function of these entries in the same order. Two invocations
  that fetch the target and get the same result from listing the members hand the same
  status to the writer, whatever the cluster holds and whether or not the store fails.
\<close>

theorem inspect_in_traversal_order:
  "inspectPlatformOperators Items =
     (if failing_entries Items = [] then None
      else Some \<lparr>FailingPOs = map fst (failing_entries Items),
                 FailingErrors = map snd (failing_entries Items)\<rparr>) \<and>
   failing_entries [] = [] \<and>
   failing_entries (po # Items) = member_entries po @ failing_entries Items \<and>
   failing_entries (Items @ Items') = failing_entries Items @ failing_entries Items' \<and>
   aggregate_Error (map snd (failing_entries Items)) =
     combined_message (map (\<lambda>e. Error (snd e)) (failing_entries Items)) \<and>
   (list_result env2 = list_result env1 \<and> Get env1 cl1 = Inr st1 \<and> Get env2 cl2 = Inr st2 \<longrightarrow>
      update_calls (Reconcile env2 cl2) = update_calls (Reconcile env1 cl1))"
proof -
  have "update_calls (Reconcile env2 cl2) = update_calls (Reconcile env1 cl1)"
    if "list_result env2 = list_result env1" "Get env1 cl1 = Inr st1" "Get env2 cl2 = Inr st2"
    using that(2,3) Reconcile_body_cong [OF that(1), of NewBuilder]
    by (simp add: Reconcile_fetched(2) [OF that(2)] Reconcile_fetched(2) [OF that(3)])
  then show ?thesis
    by (simp add: inspectPlatformOperators_eq failing_entries_def aggregate_Error_eq comp_def)
qed

theorem inspect_in_traversal_order_witness:
  "inspectPlatformOperators [po_two_failures, po_healthy, po_source_failed] =
     Some \<lparr>FailingPOs = [po_two_failures, po_two_failures, po_source_failed],
       FailingErrors =
         [ErrorString (''C is failing: '' @ [CHR 0x22] @ ''SourceFailed'' @ [CHR 0x22]),
          ErrorString (''C is failing: '' @ [CHR 0x22] @ ''ApplyFailed'' @ [CHR 0x22]),
          ErrorString (''B is failing: '' @ [CHR 0x22] @ ''SourceFailed'' @ [CHR 0x22])]\<rparr> \<and>
   update_calls (Reconcile (env_write_fails [po_two_failures, po_healthy, po_source_failed])
       (cluster (Reconcile (env_lists []) cluster_fresh))) =
     update_calls (Reconcile (env_lists [po_two_failures, po_healthy, po_source_failed])
       cluster_fresh)"
proof -
  have e: "failing_entries [po_two_failures, po_healthy, po_source_failed] =
     [(po_two_failures, ErrorString (''C is failing: '' @ [CHR 0x22] @ ''SourceFailed'' @ [CHR 0x22])),
      (po_two_failures, ErrorString (''C is failing: '' @ [CHR 0x22] @ ''ApplyFailed'' @ [CHR 0x22])),
      (po_source_failed, ErrorString (''B is failing: '' @ [CHR 0x22] @ ''SourceFailed'' @ [CHR 0x22]))]"
    by (simp add: failing_entries_def member_entries_def po_healthy_def po_two_failures_def
        po_source_failed_def is_failure_reason_def ReasonSourceFailed_def ReasonApplyFailed_def
        errors_New_def failing_message_def strconv_Quote_def quote_char_def)
  have l: "list_result (env_write_fails [po_two_failures, po_healthy, po_source_failed]) =
      list_result (env_lists [po_two_failures, po_healthy, po_source_failed])"
    by (simp add: env_write_fails_def env_lists_def)
  have g1: "Get (env_lists [po_two_failures, po_healthy, po_source_failed]) cluster_fresh =
      Inr NewBuilder"
    by simp
  have g2: "Get (env_write_fails [po_two_failures, po_healthy, po_source_failed])
       (cluster (Reconcile (env_lists []) cluster_fresh)) =
      Inr (initial_status\<lparr>Available := Some \<lparr>available_status = ConditionTrue,
        available_reason = ''No POs Found'', available_message = ''''\<rparr>\<rparr>)"
  proof -
    have le: "list_result (env_lists []) = Inr []" "write_fault (env_lists []) = None"
      by (simp_all add: env_lists_def)
    have "target (cluster (Reconcile (env_lists []) cluster_fresh)) =
      Some (initial_status\<lparr>Available := Some \<lparr>available_status = ConditionTrue,
        available_reason = ''No POs Found'', available_message = ''''\<rparr>\<rparr>)"
    proof -
      have ne: "NewBuilder \<noteq> initial_status\<lparr>Available := Some \<lparr>available_status = ConditionTrue,
        available_reason = ''No POs Found'', available_message = ''''\<rparr>\<rparr>"
        by (simp add: NewBuilder_def initial_status_def)
      show ?thesis
        by (simp add: Reconcile_fetched(4) [OF Get_example(1)] Reconcile_body_empty [OF le(1)]
            le(2) UpdateStatus_def ne)
    qed
    then show ?thesis
      by (simp add: Get_def env_write_fails_def)
  qed
  from inspect_in_traversal_order
    [of "[po_two_failures, po_healthy, po_source_failed]" _ _
      "env_write_fails [po_two_failures, po_healthy, po_source_failed]"
      "env_lists [po_two_failures, po_healthy, po_source_failed]" cluster_fresh NewBuilder
      "cluster (Reconcile (env_lists []) cluster_fresh)"]
    e l g1 g2
  show ?thesis by simp
qed

text \<open>
  One failing member can have more than one entry: the single member \<^verbatim>\<open>C\<close> with two
  failing conditions stands twice in the list of failing members.
\<close>

theorem report_entry_per_member_counterexample:
  "map_option FailingPOs (inspectPlatformOperators [po_two_failures]) =
     Some [po_two_failures, po_two_failures] \<and>
   filter is_failing [po_two_failures] = [po_two_failures]"
  by (simp add: inspectPlatformOperators_def po_two_failures_def is_failing_def
      is_failure_reason_def ReasonSourceFailed_def ReasonApplyFailed_def)

text \<open>
  C9, amended. Every report is a parallel pair: the list of failing members and the list
  of errors have the same length, and entry by entry they are the member and the message
  of one condition that matches a failure reason. There is exactly one entry per such
  condition, so a member with several matching conditions stands as often, and the
  members that occur are exactly the members with at least one matching condition.
\<close>

theorem report_entry_per_condition:
  assumes "inspectPlatformOperators Items = Some r"
  shows "length (FailingPOs r) = length (FailingErrors r) \<and>
     zip (FailingPOs r) (FailingErrors r) = failing_entries Items \<and>
     length (FailingPOs r) =
       sum_list (map (\<lambda>po. length (filter is_failure_reason (Conditions po))) Items) \<and>
     set (FailingPOs r) = {po \<in> set Items. is_failing po}"
proof -
  from assms have r: "FailingPOs r = map fst (failing_entries Items)"
    "FailingErrors r = map snd (failing_entries Items)"
    by (auto simp add: inspectPlatformOperators_eq split: if_splits)
  have z: "zip (map fst xs) (map snd xs) = xs" for xs :: "(PlatformOperator \<times> error) list"
    by (induction xs) simp_all
  have n: "length (failing_entries Items) =
      sum_list (map (\<lambda>po. length (filter is_failure_reason (Conditions po))) Items)"
    by (simp add: failing_entries_def member_entries_def length_concat comp_def)
  have s: "fst ` set (failing_entries Items) = {po \<in> set Items. is_failing po}"
    by (force simp add: failing_entries_def member_entries_def is_failing_def list_ex_iff)
  from r z n s show ?thesis by simp
qed

theorem report_entry_per_condition_witness:
  "inspectPlatformOperators [po_healthy, po_two_failures] =
     Some \<lparr>FailingPOs = [po_two_failures, po_two_failures],
      FailingErrors =
        [ErrorString (''C is failing: '' @ [CHR 0x22] @ ''SourceFailed'' @ [CHR 0x22]),
         ErrorString (''C is failing: '' @ [CHR 0x22] @ ''ApplyFailed'' @ [CHR 0x22])]\<rparr> \<and>
   failing_entries [po_healthy, po_two_failures] =
     [(po_two_failures, ErrorString (''C is failing: '' @ [CHR 0x22] @ ''SourceFailed'' @ [CHR 0x22])),
      (po_two_failures, ErrorString (''C is failing: '' @ [CHR 0x22] @ ''ApplyFailed'' @ [CHR 0x22]))]"
proof -
  have i: "inspectPlatformOperators [po_healthy, po_two_failures] =
     Some \<lparr>FailingPOs = [po_two_failures, po_two_failures],
      FailingErrors =
        [ErrorString (''C is failing: '' @ [CHR 0x22] @ ''SourceFailed'' @ [CHR 0x22]),
         ErrorString (''C is failing: '' @ [CHR 0x22] @ ''ApplyFailed'' @ [CHR 0x22])]\<rparr>"
    by (simp add: inspectPlatformOperators_def po_healthy_def po_two_failures_def
        is_failure_reason_def ReasonSourceFailed_def ReasonApplyFailed_def errors_New_def
        failing_message_def strconv_Quote_def quote_char_def)
  from report_entry_per_condition [OF i] i show ?thesis by simp
qed

text \<open>
  C10. If fetching the target fails, \<^verbatim>\<open>UpdateStatus\<close> is not called, nothing is
  written and the cluster stays as it is; the error is returned unless it is the
  not-found error, for which \<^verbatim>\<open>Reconcile\<close> returns nil.
\<close>

theorem no_write_without_target:
  assumes "Get env cl = Inl err"
  shows "update_calls (Reconcile env cl) = [] \<and> writes (Reconcile env cl) = [] \<and>
     cluster (Reconcile env cl) = cl \<and>
     exit (Reconcile env cl) =
       Return (case err of StatusNotFound msg \<Rightarrow> None | ErrorString msg \<Rightarrow> Some err)"
  by (simp add: Reconcile_not_fetched [OF assms] IgnoreNotFound_def)

theorem no_write_without_target_witness:
  "exit (Reconcile (env_lists [po_source_failed]) cluster_without_target) = Return None \<and>
   update_calls (Reconcile (env_lists [po_source_failed]) cluster_without_target) = [] \<and>
   writes (Reconcile (env_lists [po_source_failed]) cluster_without_target) = [] \<and>
   exit (Reconcile env_get_fails cluster_fresh) = Return (Some (ErrorString ''connection refused'')) \<and>
   writes (Reconcile env_get_fails cluster_fresh) = []"
proof -
  have a: "Get (env_lists [po_source_failed]) cluster_without_target =
      Inl (StatusNotFound ''clusteroperator not found'')"
    by (simp add: Get_def env_lists_def cluster_without_target_def)
  have b: "Get env_get_fails cluster_fresh = Inl (ErrorString ''connection refused'')"
    by (simp add: Get_def env_get_fails_def)
  from no_write_without_target [OF a] no_write_without_target [OF b] show ?thesis by simp
qed

end
